theory Spec2Isabelle
  imports Complex_Main
begin

section \<open>JavaScript numbers\<close>

text \<open>
  The component computes with JavaScript numbers. A number is modelled as a real, or one
  of the three non-finite values a division can produce. The operations of this section
  are exact; the section on double-precision arithmetic rounds them. The two zeros are one
  (a zero divisor is taken as \<open>+0\<close>, which is what the accumulator \<open>totalWeight\<close>,
  started at \<open>0\<close>, holds whenever it is zero).
\<close>

datatype number = Num real | NaN | PosInfinity | NegInfinity

fun js_neg :: "number \<Rightarrow> number" where
  "js_neg (Num x) = Num (- x)"
| "js_neg NaN = NaN"
| "js_neg PosInfinity = NegInfinity"
| "js_neg NegInfinity = PosInfinity"

fun js_add :: "number \<Rightarrow> number \<Rightarrow> number" where
  "js_add (Num x) (Num y) = Num (x + y)"
| "js_add NaN _ = NaN"
| "js_add _ NaN = NaN"
| "js_add PosInfinity NegInfinity = NaN"
| "js_add NegInfinity PosInfinity = NaN"
| "js_add PosInfinity _ = PosInfinity"
| "js_add NegInfinity _ = NegInfinity"
| "js_add _ PosInfinity = PosInfinity"
| "js_add _ NegInfinity = NegInfinity"

definition js_sub :: "number \<Rightarrow> number \<Rightarrow> number" where
  "js_sub a b = js_add a (js_neg b)"

fun js_mul :: "number \<Rightarrow> number \<Rightarrow> number" where
  "js_mul (Num x) (Num y) = Num (x * y)"
| "js_mul NaN _ = NaN"
| "js_mul _ NaN = NaN"
| "js_mul PosInfinity (Num y) = (if y = 0 then NaN else if 0 < y then PosInfinity else NegInfinity)"
| "js_mul NegInfinity (Num y) = (if y = 0 then NaN else if 0 < y then NegInfinity else PosInfinity)"
| "js_mul (Num x) PosInfinity = (if x = 0 then NaN else if 0 < x then PosInfinity else NegInfinity)"
| "js_mul (Num x) NegInfinity = (if x = 0 then NaN else if 0 < x then NegInfinity else PosInfinity)"
| "js_mul PosInfinity PosInfinity = PosInfinity"
| "js_mul PosInfinity NegInfinity = NegInfinity"
| "js_mul NegInfinity PosInfinity = NegInfinity"
| "js_mul NegInfinity NegInfinity = PosInfinity"

fun js_div :: "number \<Rightarrow> number \<Rightarrow> number" where
  "js_div (Num x) (Num y) =
     (if y \<noteq> 0 then Num (x / y)
      else if x = 0 then NaN
      else if 0 < x then PosInfinity else NegInfinity)"
| "js_div NaN _ = NaN"
| "js_div _ NaN = NaN"
| "js_div (Num x) _ = Num 0"
| "js_div PosInfinity (Num y) = (if 0 \<le> y then PosInfinity else NegInfinity)"
| "js_div NegInfinity (Num y) = (if 0 \<le> y then NegInfinity else PosInfinity)"
| "js_div PosInfinity PosInfinity = NaN"
| "js_div PosInfinity NegInfinity = NaN"
| "js_div NegInfinity PosInfinity = NaN"
| "js_div NegInfinity NegInfinity = NaN"

text \<open>The comparison \<open>a < b\<close>: false as soon as one side is \<open>NaN\<close>.\<close>

fun js_lt :: "number \<Rightarrow> number \<Rightarrow> bool" where
  "js_lt (Num x) (Num y) = (x < y)"
| "js_lt NaN _ = False"
| "js_lt _ NaN = False"
| "js_lt PosInfinity _ = False"
| "js_lt _ NegInfinity = False"
| "js_lt (Num x) PosInfinity = True"
| "js_lt NegInfinity _ = True"

fun Math_max :: "number \<Rightarrow> number \<Rightarrow> number" where
  "Math_max (Num x) (Num y) = Num (max x y)"
| "Math_max NaN _ = NaN"
| "Math_max _ NaN = NaN"
| "Math_max PosInfinity _ = PosInfinity"
| "Math_max _ PosInfinity = PosInfinity"
| "Math_max NegInfinity b = b"
| "Math_max a NegInfinity = a"

fun Math_min :: "number \<Rightarrow> number \<Rightarrow> number" where
  "Math_min (Num x) (Num y) = Num (min x y)"
| "Math_min NaN _ = NaN"
| "Math_min _ NaN = NaN"
| "Math_min NegInfinity _ = NegInfinity"
| "Math_min _ NegInfinity = NegInfinity"
| "Math_min PosInfinity b = b"
| "Math_min a PosInfinity = a"

text \<open>
  \<open>Math.round\<close> returns the nearest integer, a tie going towards \<open>+\<infinity>\<close>; the
  non-finite values are returned unchanged.
\<close>

fun Math_round :: "number \<Rightarrow> number" where
  "Math_round (Num x) = Num (of_int \<lfloor>x + 1 / 2\<rfloor>)"
| "Math_round a = a"

text \<open>
  \<open>Math.random()\<close> returns a finite number \<open>u\<close> with \<open>0 \<le> u < 1\<close>. The draws of
  one invocation are a sequence \<open>us\<close>: the \<open>i\<close>-th call returns \<open>us i\<close>. On such a
  base, \<open>Math.pow(u, 0.7)\<close> is the real power (\<open>0\<close> at \<open>u = 0\<close>).
\<close>

type_synonym draws = "nat \<Rightarrow> real"

definition draws_ok :: "draws \<Rightarrow> bool" where
  "draws_ok us = (\<forall>i. 0 \<le> us i \<and> us i < 1)"

definition Math_pow_07 :: "real \<Rightarrow> number" where
  "Math_pow_07 u = Num (u powr (7 / 10))"

section \<open>Data model\<close>

text \<open>
  The interfaces \<open>VoiceBiomarker\<close> and \<open>AnalysisResult\<close>. The field \<open>value\<close> of a
  biomarker is named \<open>val\<close> here; the translation keys are strings.
\<close>

record VoiceBiomarker =
  name :: string
  val :: number
  weight :: number
  description :: string

record Indicators =
  speechClarity :: number
  wordRecall :: number
  sentenceStructure :: number
  pausePatterns :: number
  prosody :: number
  articulationRate :: number
  voiceQuality :: number
  semanticCoherence :: number

datatype risk_tier = High | Moderate | Low

record AnalysisResult =
  score :: number
  risk :: risk_tier
  confidence :: number
  indicators :: Indicators
  biomarkers :: "VoiceBiomarker list"
  detected :: bool

text \<open>The part of the component state that \<open>analyzeAudio\<close> writes.\<close>

record component_state =
  analysis :: "AnalysisResult option"
  isProcessing :: bool

section \<open>The generators and the aggregator\<close>

text \<open>\<open>generateWeightedValue(min, max)\<close>, with the draw \<open>u\<close> its call of \<open>Math.random()\<close> returns.\<close>

definition generateWeightedValue :: "real \<Rightarrow> number \<Rightarrow> number \<Rightarrow> number" where
  "generateWeightedValue u mn mx =
     (let raw = Math_pow_07 u
      in Math_round (js_add mn (js_mul raw (js_sub mx mn))))"

text \<open>\<open>generateConsistentValue(baseValue, variation)\<close>, with its draw \<open>u\<close>.\<close>

definition generateConsistentValue :: "real \<Rightarrow> number \<Rightarrow> number \<Rightarrow> number" where
  "generateConsistentValue u baseValue variation =
     (let mn = Math_max (Num 0) (js_sub baseValue variation);
          mx = Math_min (Num 100) (js_add baseValue variation)
      in Math_round (js_add mn (js_mul (Num u) (js_sub mx mn))))"

text \<open>
  \<open>calculateWeightedScore\<close>: the \<open>forEach\<close> loop is a fold over the catalog carrying
  the two accumulators \<open>(weightedSum, totalWeight)\<close>, both started at \<open>0\<close>.
\<close>

definition score_step :: "VoiceBiomarker \<Rightarrow> number \<times> number \<Rightarrow> number \<times> number" where
  "score_step marker acc =
     (case acc of (weightedSum, totalWeight) \<Rightarrow>
        (js_add weightedSum (js_mul (val marker) (weight marker)),
         js_add totalWeight (weight marker)))"

definition calculateWeightedScore :: "VoiceBiomarker list \<Rightarrow> number" where
  "calculateWeightedScore bs =
     (case fold score_step bs (Num 0, Num 0) of (weightedSum, totalWeight) \<Rightarrow>
        Math_round (js_div weightedSum totalWeight))"

section \<open>The analysis\<close>

text \<open>
  The body of the callback of \<open>analyzeAudio\<close>, one definition for each of its local
  constants. The calls of \<open>Math.random()\<close> happen in program order: draws \<open>0\<close> to
  \<open>7\<close> fill the catalog, draw \<open>8\<close> the confidence, draws \<open>9\<close> to \<open>16\<close> the
  indicators. The weights are the decimal literals of the source.
\<close>

definition biomarkers_of :: "draws \<Rightarrow> VoiceBiomarker list" where
  "biomarkers_of us =
     [
      \<lparr>name = ''phonemeArticulation'',
       val = generateWeightedValue (us 0) (Num 65) (Num 95),
       weight = Num 0.15,
       description = ''phonemeArticulationDesc''\<rparr>,
      \<lparr>name = ''pauseFrequency'',
       val = generateWeightedValue (us 1) (Num 60) (Num 90),
       weight = Num 0.12,
       description = ''pauseFrequencyDesc''\<rparr>,
      \<lparr>name = ''lexicalDiversity'',
       val = generateWeightedValue (us 2) (Num 70) (Num 95),
       weight = Num 0.13,
       description = ''lexicalDiversityDesc''\<rparr>,
      \<lparr>name = ''speechRateConsistency'',
       val = generateWeightedValue (us 3) (Num 65) (Num 90),
       weight = Num 0.10,
       description = ''speechRateConsistencyDesc''\<rparr>,
      \<lparr>name = ''semanticCoherenceBio'',
       val = generateWeightedValue (us 4) (Num 60) (Num 95),
       weight = Num 0.18,
       description = ''semanticCoherenceBioDesc''\<rparr>,
      \<lparr>name = ''prosodicVariation'',
       val = generateWeightedValue (us 5) (Num 70) (Num 90),
       weight = Num 0.12,
       description = ''prosodicVariationDesc''\<rparr>,
      \<lparr>name = ''voiceTremor'',
       val = generateWeightedValue (us 6) (Num 75) (Num 95),
       weight = Num 0.10,
       description = ''voiceTremorDesc''\<rparr>,
      \<lparr>name = ''wordFindingDelay'',
       val = generateWeightedValue (us 7) (Num 60) (Num 90),
       weight = Num 0.10,
       description = ''wordFindingDelayDesc''\<rparr>
     ]"

definition weightedScore_of :: "draws \<Rightarrow> number" where
  "weightedScore_of us = calculateWeightedScore (biomarkers_of us)"

definition risk_of :: "number \<Rightarrow> risk_tier" where
  "risk_of weightedScore =
     (if js_lt weightedScore (Num 70) then High
      else if js_lt weightedScore (Num 85) then Moderate
      else Low)"

definition confidenceBase :: number where
  "confidenceBase = Num 85"

definition confidenceVariation :: number where
  "confidenceVariation = Num 10"

definition confidence_of :: "draws \<Rightarrow> number" where
  "confidence_of us =
     Math_min (Num 98) (Math_max (Num 80)
       (js_add confidenceBase
          (js_sub (js_mul (Num (us 8)) confidenceVariation)
                  (js_div confidenceVariation (Num 2)))))"

definition indicators_of :: "draws \<Rightarrow> number \<Rightarrow> Indicators" where
  "indicators_of us weightedScore =
     \<lparr>
      speechClarity = generateConsistentValue (us 9) weightedScore (Num 10),
      wordRecall = generateConsistentValue (us 10) weightedScore (Num 15),
      sentenceStructure = generateConsistentValue (us 11) weightedScore (Num 12),
      pausePatterns = generateConsistentValue (us 12) weightedScore (Num 8),
      prosody = generateConsistentValue (us 13) weightedScore (Num 10),
      articulationRate = generateConsistentValue (us 14) weightedScore (Num 7),
      voiceQuality = generateConsistentValue (us 15) weightedScore (Num 9),
      semanticCoherence = generateConsistentValue (us 16) weightedScore (Num 14)
     \<rparr>"

definition detected_of :: "number \<Rightarrow> bool" where
  "detected_of weightedScore = js_lt weightedScore (Num 78)"

definition result_of :: "draws \<Rightarrow> AnalysisResult" where
  "result_of us =
     (let weightedScore = weightedScore_of us
      in \<lparr>score = weightedScore,
          risk = risk_of weightedScore,
          confidence = Math_round (confidence_of us),
          indicators = indicators_of us weightedScore,
          biomarkers = biomarkers_of us,
          detected = detected_of weightedScore\<rparr>)"

text \<open>
  \<open>analyzeAudio(audioData)\<close> sets the processing flag and arms a timer; when the timer
  fires, the callback stores the result and clears the flag. \<open>analyzeAudio\<close> below is
  the state once the callback has run. The handle \<open>audioData\<close> has the source type
  \<open>any\<close>: a value of an arbitrary type.
\<close>

definition analyzeAudio_start :: "'a \<Rightarrow> component_state \<Rightarrow> component_state" where
  "analyzeAudio_start audioData st = st\<lparr>isProcessing := True\<rparr>"

definition analyzeAudio_callback :: "'a \<Rightarrow> draws \<Rightarrow> component_state \<Rightarrow> component_state" where
  "analyzeAudio_callback audioData us st =
     st\<lparr>analysis := Some (result_of us), isProcessing := False\<rparr>"

definition analyzeAudio :: "'a \<Rightarrow> draws \<Rightarrow> component_state \<Rightarrow> component_state" where
  "analyzeAudio audioData us st =
     analyzeAudio_callback audioData us (analyzeAudio_start audioData st)"

section \<open>Double-precision arithmetic\<close>






















section \<open>Definitions for the statements\<close>

text \<open>A sequence of draws that returns the same number at every call.\<close>

definition const_draws :: "real \<Rightarrow> draws" where
  "const_draws c i = c"

text \<open>The weight literals of the catalog, in order.\<close>

definition catalog_weights :: "real list" where
  "catalog_weights = [0.15, 0.12, 0.13, 0.10, 0.18, 0.12, 0.10, 0.10]"

text \<open>The value bounds and the names of the catalog, in order.\<close>

definition catalog_bounds :: "(real \<times> real) list" where
  "catalog_bounds = [(65, 95), (60, 90), (70, 95), (65, 90), (60, 95), (70, 90), (75, 95), (60, 90)]"

definition catalog_names :: "string list" where
  "catalog_names = [''phonemeArticulation'', ''pauseFrequency'', ''lexicalDiversity'',
     ''speechRateConsistency'', ''semanticCoherenceBio'', ''prosodicVariation'',
     ''voiceTremor'', ''wordFindingDelay'']"

text \<open>A number is an integer of \<open>[lo, hi]\<close>.\<close>

fun int_between :: "real \<Rightarrow> real \<Rightarrow> number \<Rightarrow> bool" where
  "int_between lo hi (Num x) = (of_int \<lfloor>x\<rfloor> = x \<and> lo \<le> x \<and> x \<le> hi)"
| "int_between lo hi _ = False"

text \<open>
  The aggregator as the specification words it: the rounded quotient of
  \<open>\<Sum> value\<^sub>i * weight\<^sub>i\<close> by \<open>\<Sum> weight\<^sub>i\<close>.
\<close>

definition weighted_sum :: "real list \<Rightarrow> real list \<Rightarrow> real" where
  "weighted_sum vs ws = (\<Sum>(v, w)\<leftarrow>zip vs ws. v * w)"


text \<open>
  An indicator \<open>x\<close> is within the spread \<open>v\<close> of the score \<open>s\<close>: it is an integer
  of \<open>[0, 100]\<close> at distance at most \<open>v\<close> from \<open>s\<close>.
\<close>

fun within_spread :: "number \<Rightarrow> number \<Rightarrow> real \<Rightarrow> bool" where
  "within_spread (Num x) (Num s) v =
     (of_int \<lfloor>x\<rfloor> = x \<and> 0 \<le> x \<and> x \<le> 100 \<and> \<bar>x - s\<bar> \<le> v)"
| "within_spread _ _ _ = False"



section \<open>Rounding and scaling\<close>

lemma round_between:
  fixes x :: real and lo hi :: int
  assumes "of_int lo \<le> x" "x \<le> of_int hi"
  shows "lo \<le> \<lfloor>x + 1 / 2\<rfloor> \<and> \<lfloor>x + 1 / 2\<rfloor> \<le> hi"
  using assms by linarith

lemma pow_07_unit:
  fixes u :: real
  assumes "0 \<le> u" "u < 1"
  shows "0 \<le> u powr (7 / 10) \<and> u powr (7 / 10) \<le> 1"
  using assms by (simp add: powr_le1)

lemma scale_between:
  fixes r :: real and lo hi :: real
  assumes "0 \<le> r" "r \<le> 1" "lo \<le> hi"
  shows "lo \<le> lo + r * (hi - lo) \<and> lo + r * (hi - lo) \<le> hi"
proof -
  have "0 \<le> r * (hi - lo)" using assms by simp
  moreover have "r * (hi - lo) \<le> 1 * (hi - lo)"
    using assms by (intro mult_right_mono) simp_all
  ultimately show ?thesis by simp
qed

lemma generateWeightedValue_between:
  assumes "0 \<le> u" "u < 1" "lo \<le> hi"
  shows "\<exists>k. generateWeightedValue u (Num (of_int lo)) (Num (of_int hi)) = Num (of_int k)
           \<and> lo \<le> k \<and> k \<le> hi"
proof -
  let ?x = "of_int lo + u powr (7 / 10) * (of_int hi - of_int lo) :: real"
  have r: "0 \<le> u powr (7 / 10) \<and> u powr (7 / 10) \<le> 1"
    using assms pow_07_unit by blast
  have "of_int lo \<le> ?x \<and> ?x \<le> of_int hi"
    using r assms(3) by (intro scale_between) simp_all
  then have "lo \<le> \<lfloor>?x + 1 / 2\<rfloor> \<and> \<lfloor>?x + 1 / 2\<rfloor> \<le> hi"
    using round_between by blast
  moreover have "generateWeightedValue u (Num (of_int lo)) (Num (of_int hi))
                   = Num (of_int \<lfloor>?x + 1 / 2\<rfloor>)"
    by (simp add: generateWeightedValue_def Math_pow_07_def js_sub_def)
  ultimately show ?thesis by blast
qed

lemma generateConsistentValue_eq:
  "generateConsistentValue u (Num s) (Num v) =
     Num (of_int \<lfloor>max 0 (s - v) + u * (min 100 (s + v) - max 0 (s - v)) + 1 / 2\<rfloor>)"
  by (simp add: generateConsistentValue_def js_sub_def)

lemma generateConsistentValue_between:
  assumes "0 \<le> u" "u < 1" "0 \<le> s" "s \<le> 100" "0 \<le> v"
  shows "\<exists>k. generateConsistentValue u (Num (of_int s)) (Num (of_int v)) = Num (of_int k)
           \<and> 0 \<le> k \<and> k \<le> 100 \<and> \<bar>k - s\<bar> \<le> v"
proof -
  let ?lo = "max 0 (s - v)" and ?hi = "min 100 (s + v)"
  let ?x = "of_int ?lo + u * (of_int ?hi - of_int ?lo) :: real"
  have le: "?lo \<le> ?hi" using assms by simp
  have "of_int ?lo \<le> ?x \<and> ?x \<le> of_int ?hi"
    using assms(1,2) le by (intro scale_between) simp_all
  then have b: "?lo \<le> \<lfloor>?x + 1 / 2\<rfloor> \<and> \<lfloor>?x + 1 / 2\<rfloor> \<le> ?hi"
    using round_between by blast
  have "generateConsistentValue u (Num (of_int s)) (Num (of_int v))
          = Num (of_int \<lfloor>?x + 1 / 2\<rfloor>)"
    by (simp add: generateConsistentValue_eq of_int_max of_int_min)
  moreover have "0 \<le> \<lfloor>?x + 1 / 2\<rfloor> \<and> \<lfloor>?x + 1 / 2\<rfloor> \<le> 100 \<and> \<bar>\<lfloor>?x + 1 / 2\<rfloor> - s\<bar> \<le> v"
    using b assms(3,4,5) by linarith
  ultimately show ?thesis by blast
qed

section \<open>The aggregator is a weighted mean\<close>

lemma fold_score_step:
  "map val bs = map Num vs \<Longrightarrow> map weight bs = map Num ws \<Longrightarrow>
   fold score_step bs (Num a, Num b) = (Num (a + weighted_sum vs ws), Num (b + sum_list ws))"
proof (induction bs arbitrary: vs ws a b)
  case Nil
  then show ?case by (simp add: weighted_sum_def)
next
  case (Cons m bs)
  then obtain v vs' w ws' where vs: "vs = v # vs'" and ws: "ws = w # ws'"
    by (cases vs; cases ws) auto
  with Cons.prems have hd: "val m = Num v" "weight m = Num w"
    and tl: "map val bs = map Num vs'" "map weight bs = map Num ws'"
    by simp_all
  have "fold score_step (m # bs) (Num a, Num b) = fold score_step bs (Num (a + v * w), Num (b + w))"
    by (simp add: score_step_def hd)
  also have "\<dots> = (Num (a + v * w + weighted_sum vs' ws'), Num (b + w + sum_list ws'))"
    using Cons.IH [OF tl] .
  finally show ?case by (simp add: vs ws weighted_sum_def add.assoc)
qed

lemma calculateWeightedScore_finite:
  assumes "map val bs = map Num vs" "map weight bs = map Num ws" "sum_list ws \<noteq> 0"
  shows "calculateWeightedScore bs = Num (of_int \<lfloor>weighted_sum vs ws / sum_list ws + 1 / 2\<rfloor>)"
  using fold_score_step [OF assms(1,2), of 0 0] assms(3)
  by (simp add: calculateWeightedScore_def)


section \<open>The catalog and its score\<close>

lemma biomarkers_of_vals:
  assumes "draws_ok us"
  shows "\<exists>k0 k1 k2 k3 k4 k5 k6 k7 :: int.
           map val (biomarkers_of us) = map Num [of_int k0, of_int k1, of_int k2, of_int k3, of_int k4, of_int k5, of_int k6, of_int k7]
         \<and> 65 \<le> k0 \<and> k0 \<le> 95 \<and> 60 \<le> k1 \<and> k1 \<le> 90 \<and> 70 \<le> k2 \<and> k2 \<le> 95
         \<and> 65 \<le> k3 \<and> k3 \<le> 90 \<and> 60 \<le> k4 \<and> k4 \<le> 95 \<and> 70 \<le> k5 \<and> k5 \<le> 90
         \<and> 75 \<le> k6 \<and> k6 \<le> 95 \<and> 60 \<le> k7 \<and> k7 \<le> 90"
proof -
  have u: "\<And>i. 0 \<le> us i" "\<And>i. us i < 1"
    using assms by (simp_all add: draws_ok_def)
  obtain k0 where k0: "generateWeightedValue (us 0) (Num 65) (Num 95) = Num (of_int k0)" "65 \<le> k0" "k0 \<le> 95"
    using generateWeightedValue_between [OF u(1) u(2), of 65 95 0] by auto
  obtain k1 where k1: "generateWeightedValue (us 1) (Num 60) (Num 90) = Num (of_int k1)" "60 \<le> k1" "k1 \<le> 90"
    using generateWeightedValue_between [OF u(1) u(2), of 60 90 1] by auto
  obtain k2 where k2: "generateWeightedValue (us 2) (Num 70) (Num 95) = Num (of_int k2)" "70 \<le> k2" "k2 \<le> 95"
    using generateWeightedValue_between [OF u(1) u(2), of 70 95 2] by auto
  obtain k3 where k3: "generateWeightedValue (us 3) (Num 65) (Num 90) = Num (of_int k3)" "65 \<le> k3" "k3 \<le> 90"
    using generateWeightedValue_between [OF u(1) u(2), of 65 90 3] by auto
  obtain k4 where k4: "generateWeightedValue (us 4) (Num 60) (Num 95) = Num (of_int k4)" "60 \<le> k4" "k4 \<le> 95"
    using generateWeightedValue_between [OF u(1) u(2), of 60 95 4] by auto
  obtain k5 where k5: "generateWeightedValue (us 5) (Num 70) (Num 90) = Num (of_int k5)" "70 \<le> k5" "k5 \<le> 90"
    using generateWeightedValue_between [OF u(1) u(2), of 70 90 5] by auto
  obtain k6 where k6: "generateWeightedValue (us 6) (Num 75) (Num 95) = Num (of_int k6)" "75 \<le> k6" "k6 \<le> 95"
    using generateWeightedValue_between [OF u(1) u(2), of 75 95 6] by auto
  obtain k7 where k7: "generateWeightedValue (us 7) (Num 60) (Num 90) = Num (of_int k7)" "60 \<le> k7" "k7 \<le> 90"
    using generateWeightedValue_between [OF u(1) u(2), of 60 90 7] by auto
  have "map val (biomarkers_of us) = map Num [of_int k0, of_int k1, of_int k2, of_int k3, of_int k4, of_int k5, of_int k6, of_int k7]"
    by (simp add: biomarkers_of_def k0(1) k1(1) k2(1) k3(1) k4(1) k5(1) k6(1) k7(1) del: One_nat_def)
  then show ?thesis
    using k0(2,3) k1(2,3) k2(2,3) k3(2,3) k4(2,3) k5(2,3) k6(2,3) k7(2,3) by blast
qed

lemma biomarkers_of_weights: "map weight (biomarkers_of us) = map Num catalog_weights"
  by (simp add: biomarkers_of_def catalog_weights_def)

lemma catalog_weights_sum: "sum_list catalog_weights = 1"
  by (simp add: catalog_weights_def)

lemma weightedScore_of_range:
  assumes "draws_ok us"
  shows "\<exists>k. weightedScore_of us = Num (of_int k) \<and> 65 \<le> k \<and> k \<le> 93"
proof -
  obtain k0 k1 k2 k3 k4 k5 k6 k7 :: int where
    vals: "map val (biomarkers_of us) = map Num [of_int k0, of_int k1, of_int k2, of_int k3, of_int k4, of_int k5, of_int k6, of_int k7]"
    and b: "65 \<le> k0" "k0 \<le> 95" "60 \<le> k1" "k1 \<le> 90" "70 \<le> k2" "k2 \<le> 95"
         "65 \<le> k3" "k3 \<le> 90" "60 \<le> k4" "k4 \<le> 95" "70 \<le> k5" "k5 \<le> 90"
         "75 \<le> k6" "k6 \<le> 95" "60 \<le> k7" "k7 \<le> 90"
    using biomarkers_of_vals [OF assms] by blast
  let ?vs = "[of_int k0, of_int k1, of_int k2, of_int k3, of_int k4, of_int k5, of_int k6, of_int k7] :: real list"
  let ?S = "weighted_sum ?vs catalog_weights"
  have S: "?S = (15 * of_int k0 + 12 * of_int k1 + 13 * of_int k2 + 10 * of_int k3
                 + 18 * of_int k4 + 12 * of_int k5 + 10 * of_int k6 + 10 * of_int k7) / 100"
    by (simp add: weighted_sum_def catalog_weights_def)
  have lo: "6525 / 100 \<le> ?S" unfolding S using b by simp
  have hi: "?S \<le> 9280 / 100" unfolding S using b by simp
  have "weightedScore_of us = Num (of_int \<lfloor>?S / sum_list catalog_weights + 1 / 2\<rfloor>)"
    unfolding weightedScore_of_def
    using vals biomarkers_of_weights by (intro calculateWeightedScore_finite) (simp_all add: catalog_weights_sum)
  then have eq: "weightedScore_of us = Num (of_int \<lfloor>?S + 1 / 2\<rfloor>)"
    by (simp add: catalog_weights_sum)
  have "65 \<le> \<lfloor>?S + 1 / 2\<rfloor> \<and> \<lfloor>?S + 1 / 2\<rfloor> \<le> 93"
    using lo hi by linarith
  with eq show ?thesis by blast
qed

section \<open>The result object\<close>

lemma draws_ok_const: "0 \<le> c \<Longrightarrow> c < 1 \<Longrightarrow> draws_ok (const_draws c)"
  by (simp add: draws_ok_def const_draws_def)

lemma generateConsistentValue_within:
  assumes "0 \<le> u" "u < 1" "0 \<le> s" "s \<le> 100" "0 \<le> v"
  shows "within_spread (generateConsistentValue u (Num (of_int s)) (Num (of_int v)))
           (Num (of_int s)) (of_int v)"
proof -
  obtain k where k: "generateConsistentValue u (Num (of_int s)) (Num (of_int v)) = Num (of_int k)"
      "0 \<le> k" "k \<le> 100" "\<bar>k - s\<bar> \<le> v"
    using generateConsistentValue_between [OF assms] by blast
  have "\<bar>real_of_int k - of_int s\<bar> \<le> of_int v"
    using k(4) by linarith
  then show ?thesis using k(1,2,3) by simp
qed

lemma result_of_score: "score (result_of us) = weightedScore_of us"
  by (simp add: result_of_def Let_def)

lemma result_of_indicators:
  "indicators (result_of us) = indicators_of us (weightedScore_of us)"
  by (simp add: result_of_def Let_def)

lemma weightedScore_of_zero: "weightedScore_of (const_draws 0) = Num 65"
  by (simp add: weightedScore_of_def biomarkers_of_def calculateWeightedScore_def
      score_step_def generateWeightedValue_def Math_pow_07_def js_sub_def const_draws_def)

lemma result_of_risk: "risk (result_of us) = risk_of (weightedScore_of us)"
  by (simp add: result_of_def Let_def)

lemma result_of_detected: "detected (result_of us) = detected_of (weightedScore_of us)"
  by (simp add: result_of_def Let_def)

lemma result_of_confidence: "confidence (result_of us) = Math_round (confidence_of us)"
  by (simp add: result_of_def Let_def)

lemma result_of_biomarkers: "biomarkers (result_of us) = biomarkers_of us"
  by (simp add: result_of_def Let_def)

lemma risk_of_int:
  "risk_of (Num (of_int s)) = (if s < 70 then High else if s < 85 then Moderate else Low)"
  by (simp add: risk_of_def)

section \<open>Draws that reach chosen scores\<close>

text \<open>
  The draw \<open>c powr (10 / 7)\<close> makes \<open>raw\<close> equal to \<open>c\<close> in
  \<open>generateWeightedValue\<close>, and it lies in \<open>[0, 1)\<close> when \<open>c\<close> lies in \<open>(0, 1)\<close>.
\<close>

lemma Math_pow_07_root:
  assumes "0 \<le> c"
  shows "Math_pow_07 (c powr (10 / 7)) = Num c"
  using assms by (simp add: Math_pow_07_def powr_powr)

lemma root_unit:
  fixes c :: real
  assumes "0 < c" "c < 1"
  shows "0 \<le> c powr (10 / 7) \<and> c powr (10 / 7) < 1"
  using assms by (simp add: powr01_less_one)

lemmas score_eval = weightedScore_of_def biomarkers_of_def calculateWeightedScore_def
      score_step_def generateWeightedValue_def Math_pow_07_root js_sub_def const_draws_def

lemma weightedScore_of_max: "weightedScore_of (const_draws ((99 / 100) powr (10 / 7))) = Num 93"
  by (simp add: score_eval)

lemma weightedScore_of_mid: "weightedScore_of (const_draws ((51 / 100) powr (10 / 7))) = Num 79"
  by (simp add: score_eval)

lemma weightedScore_of_mid_detected: "weightedScore_of (const_draws ((31 / 100) powr (10 / 7))) = Num 74"
  by (simp add: score_eval)

lemma draws_ok_root: "0 < c \<Longrightarrow> c < 1 \<Longrightarrow> draws_ok (const_draws (c powr (10 / 7)))"
  using root_unit [of c] by (simp add: draws_ok_def const_draws_def)

lemma generateWeightedValue_int_between:
  assumes "0 \<le> u" "u < 1" "lo \<le> hi"
  shows "int_between (of_int lo) (of_int hi)
           (generateWeightedValue u (Num (of_int lo)) (Num (of_int hi)))"
proof -
  obtain k where "generateWeightedValue u (Num (of_int lo)) (Num (of_int hi)) = Num (of_int k)"
      "lo \<le> k" "k \<le> hi"
    using generateWeightedValue_between [OF assms] by blast
  then show ?thesis by simp
qed

section \<open>The indicators\<close>

text \<open>
  Claim C1, as the code has it. For every sequence of draws in \<open>[0, 1)\<close>, each of the
  eight indicator fields of the result is \<open>generateConsistentValue\<close> applied to the
  composite score and the fixed variation of the field, which is 10, 15, 12, 8, 10, 7, 9
  and 14 for speechClarity, wordRecall, sentenceStructure, pausePatterns, prosody,
  articulationRate, voiceQuality and semanticCoherence; each field is an integer of
  \<open>[0, 100]\<close> that differs from the score by at most that variation.
\<close>

theorem indicators_within_spread:
  assumes "draws_ok us"
  shows "speechClarity (indicators (result_of us))
           = generateConsistentValue (us 9) (score (result_of us)) (Num 10)
       \<and> wordRecall (indicators (result_of us))
           = generateConsistentValue (us 10) (score (result_of us)) (Num 15)
       \<and> sentenceStructure (indicators (result_of us))
           = generateConsistentValue (us 11) (score (result_of us)) (Num 12)
       \<and> pausePatterns (indicators (result_of us))
           = generateConsistentValue (us 12) (score (result_of us)) (Num 8)
       \<and> prosody (indicators (result_of us))
           = generateConsistentValue (us 13) (score (result_of us)) (Num 10)
       \<and> articulationRate (indicators (result_of us))
           = generateConsistentValue (us 14) (score (result_of us)) (Num 7)
       \<and> voiceQuality (indicators (result_of us))
           = generateConsistentValue (us 15) (score (result_of us)) (Num 9)
       \<and> semanticCoherence (indicators (result_of us))
           = generateConsistentValue (us 16) (score (result_of us)) (Num 14)
       \<and> within_spread (speechClarity (indicators (result_of us))) (score (result_of us)) 10
       \<and> within_spread (wordRecall (indicators (result_of us))) (score (result_of us)) 15
       \<and> within_spread (sentenceStructure (indicators (result_of us))) (score (result_of us)) 12
       \<and> within_spread (pausePatterns (indicators (result_of us))) (score (result_of us)) 8
       \<and> within_spread (prosody (indicators (result_of us))) (score (result_of us)) 10
       \<and> within_spread (articulationRate (indicators (result_of us))) (score (result_of us)) 7
       \<and> within_spread (voiceQuality (indicators (result_of us))) (score (result_of us)) 9
       \<and> within_spread (semanticCoherence (indicators (result_of us))) (score (result_of us)) 14"
proof -
  obtain s where s: "weightedScore_of us = Num (of_int s)" "65 \<le> s" "s \<le> 93"
    using weightedScore_of_range [OF assms] by blast
  have u: "\<And>i. 0 \<le> us i" "\<And>i. us i < 1"
    using assms by (simp_all add: draws_ok_def)
  have w: "\<And>i v. 0 \<le> v \<Longrightarrow>
             within_spread (generateConsistentValue (us i) (Num (of_int s)) (Num (of_int v)))
               (Num (of_int s)) (of_int v)"
    using u s(2,3) by (intro generateConsistentValue_within) simp_all
  have i: "indicators (result_of us) = indicators_of us (Num (of_int s))"
    by (simp add: result_of_indicators s(1))
  have sc: "score (result_of us) = Num (of_int s)"
    by (simp add: result_of_score s(1))
  show ?thesis
    unfolding i sc indicators_of_def
    using w [of 10 9] w [of 15 10] w [of 12 11] w [of 8 12] w [of 10 13] w [of 7 14]
      w [of 9 15] w [of 14 16]
    by simp
qed

text \<open>The statement above at the draws that are all \<open>0\<close>: the score is 65 and speechClarity is 55.\<close>

theorem indicators_within_spread_witness:
  "draws_ok (const_draws 0)
   \<and> score (result_of (const_draws 0)) = Num 65
   \<and> speechClarity (indicators (result_of (const_draws 0))) = Num 55
   \<and> within_spread (speechClarity (indicators (result_of (const_draws 0)))) (Num 65) 10"
  using indicators_within_spread [of "const_draws 0"]
  by (simp add: draws_ok_const result_of_score weightedScore_of_zero
      generateConsistentValue_def js_sub_def const_draws_def)

text \<open>
  Claim C1 as the specification states it gives speechClarity the spread 8. At the draws
  that are all \<open>0\<close> the score is 65 and speechClarity is 55: it is not the value that a
  variation of 8 produces, and it is 10 away from the score.
\<close>

theorem speechClarity_spread_8_counterexample:
  "draws_ok (const_draws 0)
   \<and> score (result_of (const_draws 0)) = Num 65
   \<and> speechClarity (indicators (result_of (const_draws 0))) = Num 55
   \<and> speechClarity (indicators (result_of (const_draws 0)))
        \<noteq> generateConsistentValue (const_draws 0 9) (score (result_of (const_draws 0))) (Num 8)
   \<and> \<not> within_spread (speechClarity (indicators (result_of (const_draws 0))))
          (score (result_of (const_draws 0))) 8"
  by (simp add: draws_ok_const result_of_score result_of_indicators weightedScore_of_zero
      indicators_of_def generateConsistentValue_def js_sub_def const_draws_def)

section \<open>The detection flag\<close>

text \<open>
  Claim C2. For every sequence of draws in \<open>[0, 1)\<close> the composite score of the result
  is an integer \<open>k\<close>, the flag \<open>detected\<close> is true exactly when \<open>k < 78\<close>, and the
  risk is Moderate exactly when \<open>70 \<le> k < 85\<close>: a Moderate result is flagged exactly
  when its score is below 78.
\<close>

theorem detected_iff_below_78:
  assumes "draws_ok us"
  shows "\<exists>k. score (result_of us) = Num (of_int k)
           \<and> (detected (result_of us) \<longleftrightarrow> k < 78)
           \<and> (risk (result_of us) = Moderate \<longleftrightarrow> 70 \<le> k \<and> k < 85)"
proof -
  obtain k where k: "weightedScore_of us = Num (of_int k)"
    using weightedScore_of_range [OF assms] by blast
  have "detected (result_of us) \<longleftrightarrow> k < 78"
    by (simp add: result_of_detected detected_of_def k)
  moreover have "risk (result_of us) = Moderate \<longleftrightarrow> 70 \<le> k \<and> k < 85"
    by (simp add: result_of_risk risk_of_int k)
  ultimately show ?thesis
    using k by (simp add: result_of_score)
qed

text \<open>The statement at the draws that are all \<open>0\<close>: score 65, flagged, risk High.\<close>

theorem detected_iff_below_78_witness:
  "draws_ok (const_draws 0)
   \<and> score (result_of (const_draws 0)) = Num 65
   \<and> detected (result_of (const_draws 0))
   \<and> risk (result_of (const_draws 0)) = High"
  using detected_iff_below_78 [of "const_draws 0"]
  by (simp add: draws_ok_const result_of_score result_of_detected result_of_risk
      weightedScore_of_zero detected_of_def risk_of_def)

text \<open>Both kinds of Moderate result occur: score 74 is flagged, score 79 is not.\<close>

lemma moderate_both_sides:
  "risk (result_of (const_draws ((31 / 100) powr (10 / 7)))) = Moderate
   \<and> detected (result_of (const_draws ((31 / 100) powr (10 / 7))))
   \<and> risk (result_of (const_draws ((51 / 100) powr (10 / 7)))) = Moderate
   \<and> \<not> detected (result_of (const_draws ((51 / 100) powr (10 / 7))))"
  by (simp add: result_of_detected result_of_risk weightedScore_of_mid
      weightedScore_of_mid_detected detected_of_def risk_of_def)

section \<open>The risk tier\<close>

text \<open>
  Claim C3. The risk tier is a function of the composite score: an integer score \<open>s\<close>
  gives High exactly when \<open>s < 70\<close>, Moderate exactly when \<open>70 \<le> s < 85\<close> and Low
  exactly when \<open>85 \<le> s\<close>, so every score has one tier and the tiers do not overlap; the
  tier of a result is that function of its score.
\<close>

theorem risk_of_partition:
  "(risk_of (Num (of_int s)) = High \<longleftrightarrow> s < 70)
   \<and> (risk_of (Num (of_int s)) = Moderate \<longleftrightarrow> 70 \<le> s \<and> s < 85)
   \<and> (risk_of (Num (of_int s)) = Low \<longleftrightarrow> 85 \<le> s)
   \<and> risk (result_of us) = risk_of (score (result_of us))"
  by (simp add: risk_of_int result_of_risk result_of_score)

section \<open>The aggregator\<close>

text \<open>
  Claim C5 as the specification states it asks the aggregator to fail on the empty
  catalog. The function has no guard and nothing in it raises: on the empty catalog both
  accumulators stay \<open>0\<close>, and it returns the value \<open>NaN\<close>.
\<close>

theorem calculateWeightedScore_empty_counterexample:
  "calculateWeightedScore [] = NaN"
  by (simp add: calculateWeightedScore_def)

text \<open>
  Claim C5, as the code has it. On the empty catalog \<open>calculateWeightedScore\<close> returns
  the rounding of \<open>0 / 0\<close>, which is no finite number; the classification would read it
  as risk Low, not detected. The catalog that \<open>analyzeAudio\<close> builds is never empty.
\<close>

theorem calculateWeightedScore_empty:
  "calculateWeightedScore [] = Math_round (js_div (Num 0) (Num 0))
   \<and> (\<forall>x. calculateWeightedScore [] \<noteq> Num x)
   \<and> risk_of (calculateWeightedScore []) = Low
   \<and> \<not> detected_of (calculateWeightedScore [])
   \<and> biomarkers_of us \<noteq> []"
  by (simp add: calculateWeightedScore_def risk_of_def detected_of_def biomarkers_of_def)

section \<open>Rounding to a double\<close>













































section \<open>The rounding error of the aggregator\<close>















section \<open>The aggregator in double arithmetic\<close>






section \<open>The confidence\<close>








section \<open>The weighted generator\<close>






section \<open>The catalog\<close>

text \<open>
  Claim C8. For every sequence of draws the catalog of the result has exactly 8
  biomarkers, with the names, descriptions and weights 0.15, 0.12, 0.13, 0.10, 0.18, 0.12,
  0.10, 0.10 in this order; the weights sum to 1; the value of each biomarker is \<open>generateWeightedValue\<close>
  at its own fixed bounds, which lie in \<open>[60, 95]\<close>; two catalogs differ in their values
  only; and for draws in \<open>[0, 1)\<close> each value is an integer between its bounds.
\<close>

theorem biomarkers_of_fixed:
  "biomarkers (result_of us) = biomarkers_of us
   \<and> length (biomarkers_of us) = 8
   \<and> map name (biomarkers_of us) = catalog_names
   \<and> map description (biomarkers_of us) = map (\<lambda>n. n @ ''Desc'') catalog_names
   \<and> map weight (biomarkers_of us) = map Num [0.15, 0.12, 0.13, 0.10, 0.18, 0.12, 0.10, 0.10]
   \<and> sum_list [0.15, 0.12, 0.13, 0.10, 0.18, 0.12, 0.10, 0.10] = (1 :: real)
   \<and> map val (biomarkers_of us)
        = map (\<lambda>(i, lo, hi). generateWeightedValue (us i) (Num lo) (Num hi))
            (zip [0, 1, 2, 3, 4, 5, 6, 7] catalog_bounds)
   \<and> list_all (\<lambda>(lo, hi). 60 \<le> lo \<and> lo < hi \<and> hi \<le> 95) catalog_bounds
   \<and> map (\<lambda>b. b\<lparr>val := Num 0\<rparr>) (biomarkers_of us) = map (\<lambda>b. b\<lparr>val := Num 0\<rparr>) (biomarkers_of us')
   \<and> (draws_ok us \<longrightarrow>
        list_all2 (\<lambda>b (lo, hi). int_between lo hi (val b)) (biomarkers_of us) catalog_bounds)"
proof -
  have fixed: "biomarkers (result_of us) = biomarkers_of us
   \<and> length (biomarkers_of us) = 8
   \<and> map name (biomarkers_of us) = catalog_names
   \<and> map description (biomarkers_of us) = map (\<lambda>n. n @ ''Desc'') catalog_names
   \<and> map weight (biomarkers_of us) = map Num [0.15, 0.12, 0.13, 0.10, 0.18, 0.12, 0.10, 0.10]"
    by (simp add: result_of_biomarkers biomarkers_of_def catalog_names_def)
  have total: "sum_list [0.15, 0.12, 0.13, 0.10, 0.18, 0.12, 0.10, 0.10] = (1 :: real)"
    by simp
  have vals: "map val (biomarkers_of us)
        = map (\<lambda>(i, lo, hi). generateWeightedValue (us i) (Num lo) (Num hi))
            (zip [0, 1, 2, 3, 4, 5, 6, 7] catalog_bounds)"
    by (simp add: biomarkers_of_def catalog_bounds_def)
  have bounds: "list_all (\<lambda>(lo, hi). 60 \<le> lo \<and> lo < hi \<and> hi \<le> 95) catalog_bounds"
    by (simp add: catalog_bounds_def)
  have same: "map (\<lambda>b. b\<lparr>val := Num 0\<rparr>) (biomarkers_of us) = map (\<lambda>b. b\<lparr>val := Num 0\<rparr>) (biomarkers_of us')"
    by (simp add: biomarkers_of_def)
  have drawn: "list_all2 (\<lambda>b (lo, hi). int_between lo hi (val b)) (biomarkers_of us) catalog_bounds"
    if "draws_ok us"
  proof -
    have u: "\<And>i. 0 \<le> us i" "\<And>i. us i < 1"
      using that by (simp_all add: draws_ok_def)
    have g: "\<And>i lo hi. lo \<le> hi \<Longrightarrow> int_between (of_int lo) (of_int hi)
           (generateWeightedValue (us i) (Num (of_int lo)) (Num (of_int hi)))"
      using u by (intro generateWeightedValue_int_between) simp_all
    show ?thesis
      unfolding biomarkers_of_def catalog_bounds_def
      using g [of 65 95 0] g [of 60 90 1] g [of 70 95 2] g [of 65 90 3]
        g [of 60 95 4] g [of 70 90 5] g [of 75 95 6] g [of 60 90 7]
      by (simp del: One_nat_def)
  qed
  from fixed total vals bounds same drawn show ?thesis by blast
qed

text \<open>The statement at the draws that are all \<open>0\<close>: every value is its lower bound.\<close>

theorem biomarkers_of_fixed_witness:
  "draws_ok (const_draws 0)
   \<and> map val (biomarkers_of (const_draws 0)) = map Num [65, 60, 70, 65, 60, 70, 75, 60]
   \<and> list_all2 (\<lambda>b (lo, hi). int_between lo hi (val b)) (biomarkers_of (const_draws 0)) catalog_bounds"
  using biomarkers_of_fixed [of "const_draws 0" "const_draws 0"]
  by (simp add: draws_ok_const biomarkers_of_def generateWeightedValue_def Math_pow_07_def
      js_sub_def const_draws_def)

section \<open>The audio handle\<close>

text \<open>
  Claim C9. The state that \<open>analyzeAudio\<close> leaves does not depend on the audio handle:
  for two handles of any types (a file object, a string) and the same draws it is the
  same state, holding the result of the draws with the processing flag cleared.
\<close>

theorem analyzeAudio_ignores_handle:
  "analyzeAudio (a :: 'a) us st = analyzeAudio (b :: 'b) us st
   \<and> analysis (analyzeAudio a us st) = Some (result_of us)
   \<and> isProcessing (analyzeAudio a us st) = False"
  by (simp add: analyzeAudio_def analyzeAudio_callback_def analyzeAudio_start_def)

section \<open>The range of the composite score\<close>

text \<open>
  Claim C10. For every sequence of draws in \<open>[0, 1)\<close> the composite score is an integer
  of \<open>[65, 93]\<close>: the lower bounds of the catalog give the weighted sum 65.25 and the
  upper bounds 92.8. Both ends occur, and the three risk tiers are reached: score 65 is
  High, score 79 is Moderate, score 93 is Low.
\<close>

theorem score_between_65_and_93:
  "(draws_ok us \<longrightarrow> (\<exists>k. score (result_of us) = Num (of_int k) \<and> 65 \<le> k \<and> k \<le> 93))
   \<and> weighted_sum (map fst catalog_bounds) catalog_weights = 65.25
   \<and> weighted_sum (map snd catalog_bounds) catalog_weights = 92.8
   \<and> draws_ok (const_draws 0)
   \<and> score (result_of (const_draws 0)) = Num 65
   \<and> risk (result_of (const_draws 0)) = High
   \<and> draws_ok (const_draws ((51 / 100) powr (10 / 7)))
   \<and> score (result_of (const_draws ((51 / 100) powr (10 / 7)))) = Num 79
   \<and> risk (result_of (const_draws ((51 / 100) powr (10 / 7)))) = Moderate
   \<and> draws_ok (const_draws ((99 / 100) powr (10 / 7)))
   \<and> score (result_of (const_draws ((99 / 100) powr (10 / 7)))) = Num 93
   \<and> risk (result_of (const_draws ((99 / 100) powr (10 / 7)))) = Low"
proof -
  have range: "draws_ok us \<longrightarrow> (\<exists>k. score (result_of us) = Num (of_int k) \<and> 65 \<le> k \<and> k \<le> 93)"
    using weightedScore_of_range [of us] by (simp add: result_of_score)
  have sums: "weighted_sum (map fst catalog_bounds) catalog_weights = 65.25
      \<and> weighted_sum (map snd catalog_bounds) catalog_weights = 92.8"
    by (simp add: weighted_sum_def catalog_bounds_def catalog_weights_def)
  have high: "draws_ok (const_draws 0) \<and> score (result_of (const_draws 0)) = Num 65
      \<and> risk (result_of (const_draws 0)) = High"
    by (simp add: draws_ok_const result_of_score result_of_risk weightedScore_of_zero risk_of_def)
  have moderate: "draws_ok (const_draws ((51 / 100) powr (10 / 7)))
      \<and> score (result_of (const_draws ((51 / 100) powr (10 / 7)))) = Num 79
      \<and> risk (result_of (const_draws ((51 / 100) powr (10 / 7)))) = Moderate"
    by (simp add: draws_ok_root result_of_score result_of_risk weightedScore_of_mid risk_of_def)
  have low: "draws_ok (const_draws ((99 / 100) powr (10 / 7)))
      \<and> score (result_of (const_draws ((99 / 100) powr (10 / 7)))) = Num 93
      \<and> risk (result_of (const_draws ((99 / 100) powr (10 / 7)))) = Low"
    by (simp add: draws_ok_root result_of_score result_of_risk weightedScore_of_max risk_of_def)
  from range sums high moderate low show ?thesis by blast
qed

text \<open>The statement at the draws that are all \<open>0\<close>: the score is 65.\<close>

theorem score_between_65_and_93_witness:
  "draws_ok (const_draws 0) \<and> score (result_of (const_draws 0)) = Num 65"
  using score_between_65_and_93 [of "const_draws 0"]
  by simp

end
